theory Spec2Isabelle
  imports Main "HOL-Library.Word" "HOL-Library.AList"
begin

section \<open>Go values held in an interface\<close>

text \<open>
  The tracer of \<^verbatim>\<open>agentbill.go\<close> keeps attribute values as Go \<^verbatim>\<open>interface{}\<close>
  values.  A value of that type carries its dynamic type; \<^verbatim>\<open>valueToOTLP\<close> switches on
  it.  The arms below are the four types the switch names (\<^verbatim>\<open>string\<close>, \<^verbatim>\<open>int\<close>,
  \<^verbatim>\<open>int64\<close>, \<^verbatim>\<open>bool\<close>), some of the types it sends to its \<^verbatim>\<open>default\<close> branch (the nil
  interface, \<^verbatim>\<open>int32\<close>, \<^verbatim>\<open>uint64\<close>, \<^verbatim>\<open>[]string\<close>), and \<open>GOther\<close>, which stands for a
  value of any further type and carries the text that the \<^verbatim>\<open>%v\<close> verb of \<^verbatim>\<open>fmt\<close> prints
  for it.  Go's \<^verbatim>\<open>int\<close> is taken at its width on a 64-bit target.
\<close>

type_synonym int64 = "64 word"

datatype gvalue =
    GString string
  | GInt int64
  | GInt64 int64
  | GBool bool
  | GNil
  | GInt32 "32 word"
  | GUint64 "64 word"
  | GStrings "string list"
  | GOther string

subsection \<open>Decimal text\<close>

definition digit :: "nat \<Rightarrow> char" where
  "digit d = ''0123456789'' ! d"

fun dec_nat :: "nat \<Rightarrow> string" where
  "dec_nat n = (if n < 10 then [digit n] else dec_nat (n div 10) @ [digit (n mod 10)])"

declare dec_nat.simps [simp del]

text \<open>\<^verbatim>\<open>fmt.Sprintf("%d", x)\<close> for a signed integer.\<close>

definition dec_int :: "int \<Rightarrow> string" where
  "dec_int i = (if i < 0 then CHR ''-'' # dec_nat (nat (- i)) else dec_nat (nat i))"

fun join_sp :: "string list \<Rightarrow> string" where
  "join_sp [] = []"
| "join_sp [s] = s"
| "join_sp (s # t # ss) = s @ '' '' @ join_sp (t # ss)"

text \<open>\<^verbatim>\<open>fmt.Sprintf("%v", v)\<close>, the default string representation.\<close>

fun sprint_v :: "gvalue \<Rightarrow> string" where
  "sprint_v (GString s) = s"
| "sprint_v (GInt w) = dec_int (sint w)"
| "sprint_v (GInt64 w) = dec_int (sint w)"
| "sprint_v (GBool b) = (if b then ''true'' else ''false'')"
| "sprint_v GNil = ''<nil>''"
| "sprint_v (GInt32 w) = dec_int (sint w)"
| "sprint_v (GUint64 w) = dec_nat (unat w)"
| "sprint_v (GStrings ss) = ''['' @ join_sp ss @ '']''"
| "sprint_v (GOther s) = s"





subsection \<open>UUIDs\<close>

text \<open>
  A \<^verbatim>\<open>uuid.UUID\<close> is an array of 16 bytes; its \<^verbatim>\<open>String()\<close> is the usual text of 36
  characters, in lower-case hexadecimal with four hyphens.  The value that \<^verbatim>\<open>uuid.New()\<close>
  draws is an input of the model.
\<close>

type_synonym byte = "8 word"

datatype uuid =
  UUID byte byte byte byte byte byte byte byte byte byte byte byte byte byte byte byte

definition hex_digit :: "nat \<Rightarrow> char" where
  "hex_digit d = ''0123456789abcdef'' ! d"

definition hex_byte :: "byte \<Rightarrow> string" where
  "hex_byte b = [hex_digit (unat b div 16), hex_digit (unat b mod 16)]"

fun uuid_String :: "uuid \<Rightarrow> string" where
  "uuid_String (UUID b0 b1 b2 b3 b4 b5 b6 b7 b8 b9 b10 b11 b12 b13 b14 b15) =
     hex_byte b0 @ hex_byte b1 @ hex_byte b2 @ hex_byte b3 @ ''-'' @
     hex_byte b4 @ hex_byte b5 @ ''-'' @
     hex_byte b6 @ hex_byte b7 @ ''-'' @
     hex_byte b8 @ hex_byte b9 @ ''-'' @
     hex_byte b10 @ hex_byte b11 @ hex_byte b12 @ hex_byte b13 @ hex_byte b14 @ hex_byte b15"

section \<open>Configuration, spans and the tracer\<close>

record Config =
  APIKey :: string
  BaseURL :: string
  CustomerID :: string
  Debug :: bool

text \<open>
  A Go map is a reference: \<^verbatim>\<open>nil\<close>, or a map object shared by everyone who holds it.
  Map objects live in the store \<open>maps\<close> of the state, addressed by number.  The content
  of a map object is an association list with one entry per key; the position of an entry
  has no counterpart in Go, where the order of iteration is not fixed.
\<close>

datatype mapref = NilMap | MapRef nat

type_synonym gmap = "(string \<times> gvalue) list"

record Span =
  Name :: string
  TraceID :: string
  SpanID :: string
  Attributes :: mapref
  StartTime :: int64
  EndTime :: int64
  Status :: gmap

text \<open>
  \<^verbatim>\<open>spans []*Span\<close>: the buffer holds pointers.  A \<^verbatim>\<open>*Span\<close> is an index into the store
  \<open>objs\<close> of span objects; an index outside the store stands for the nil pointer.
\<close>

record Tracer =
  config :: Config
  spans :: "nat list"

record state =
  tracer :: Tracer
  objs :: "Span list"
  maps :: "nat \<Rightarrow> gmap"

datatype error = Panic string | Err string

definition NewTracer :: "Config \<Rightarrow> Tracer" where
  "NewTracer cfg = \<lparr>config = cfg, spans = []\<rparr>"

text \<open>
  \<^verbatim>\<open>StartSpan\<close>.  The two UUIDs are what the two calls of \<^verbatim>\<open>uuid.New()\<close>
  return and \<open>now\<close> is the reading of \<^verbatim>\<open>time.Now().UnixNano()\<close>.  The write
  \<^verbatim>\<open>attributes["service.name"] = ...\<close> goes to the caller's map object; on a nil map Go
  panics there, before anything of the tracer has changed.
\<close>

definition StartSpan ::
  "uuid \<Rightarrow> uuid \<Rightarrow> int64 \<Rightarrow> string \<Rightarrow> mapref \<Rightarrow> state \<Rightarrow> error + nat \<times> state" where
  "StartSpan uuid1 uuid2 now name attributes st =
     (let traceID = uuid_String uuid1;
          spanID = take 16 (uuid_String uuid2)
      in case attributes of
           NilMap \<Rightarrow> Inl (Panic ''assignment to entry in nil map'')
         | MapRef a \<Rightarrow>
             let m1 = (maps st)(a := AList.update ''service.name'' (GString ''agentbill-go-sdk'') (maps st a));
                 m2 = (if CustomerID (config (tracer st)) \<noteq> ''''
                       then m1(a := AList.update ''customer.id''
                                      (GString (CustomerID (config (tracer st)))) (m1 a))
                       else m1);
                 span = \<lparr>Name = name, TraceID = traceID, SpanID = spanID,
                         Attributes = attributes, StartTime = now, EndTime = 0,
                         Status = [(''code'', GInt 0)]\<rparr>;
                 p = length (objs st)
             in Inr (p, st\<lparr>tracer := (tracer st)\<lparr>spans := spans (tracer st) @ [p]\<rparr>,
                           objs := objs st @ [span],
                           maps := m2\<rparr>))"

definition deref :: "state \<Rightarrow> nat \<Rightarrow> Span option" where
  "deref st p = (if p < length (objs st) then Some (objs st ! p) else None)"

definition SetAttribute :: "nat \<Rightarrow> string \<Rightarrow> gvalue \<Rightarrow> state \<Rightarrow> error + state" where
  "SetAttribute s key val st =
     (case deref st s of
        None \<Rightarrow> Inl (Panic ''nil pointer dereference'')
      | Some sp \<Rightarrow>
          (case Attributes sp of
             NilMap \<Rightarrow> Inl (Panic ''assignment to entry in nil map'')
           | MapRef a \<Rightarrow> Inr (st\<lparr>maps := (maps st)(a := AList.update key val (maps st a))\<rparr>)))"

definition SetStatus :: "nat \<Rightarrow> int64 \<Rightarrow> string \<Rightarrow> state \<Rightarrow> error + state" where
  "SetStatus s code message st =
     (case deref st s of
        None \<Rightarrow> Inl (Panic ''nil pointer dereference'')
      | Some sp \<Rightarrow>
          Inr (st\<lparr>objs := (objs st)[s := sp\<lparr>Status := [(''code'', GInt code),
                                                       (''message'', GString message)]\<rparr>]\<rparr>))"

text \<open>\<^verbatim>\<open>End\<close>: one assignment, \<^verbatim>\<open>s.EndTime = time.Now().UnixNano()\<close>.\<close>

definition End :: "int64 \<Rightarrow> nat \<Rightarrow> state \<Rightarrow> error + state" where
  "End now s st =
     (case deref st s of
        None \<Rightarrow> Inl (Panic ''nil pointer dereference'')
      | Some sp \<Rightarrow> Inr (st\<lparr>objs := (objs st)[s := sp\<lparr>EndTime := now\<rparr>]\<rparr>))"

section \<open>The OTLP encoder\<close>

text \<open>
  The payload is a tree of \<^verbatim>\<open>map[string]interface{}\<close>, slices of such maps, and plain
  values at the leaves.
\<close>

datatype doc = DVal gvalue | DList "doc list" | DMap "(string \<times> doc) list"

fun valueToOTLP :: "gvalue \<Rightarrow> doc" where
  "valueToOTLP (GString v) = DMap [(''stringValue'', DVal (GString v))]"
| "valueToOTLP (GInt v) = DMap [(''intValue'', DVal (GInt v))]"
| "valueToOTLP (GInt64 v) = DMap [(''intValue'', DVal (GInt64 v))]"
| "valueToOTLP (GBool v) = DMap [(''boolValue'', DVal (GBool v))]"
| "valueToOTLP v = DMap [(''stringValue'', DVal (GString (sprint_v v)))]"

definition read_map :: "state \<Rightarrow> mapref \<Rightarrow> gmap" where
  "read_map st r = (case r of NilMap \<Rightarrow> [] | MapRef a \<Rightarrow> maps st a)"

text \<open>\<open>now\<close> is what \<^verbatim>\<open>time.Now().UnixNano()\<close> returns if the encoder asks.\<close>

definition spanToOTLP :: "int64 \<Rightarrow> state \<Rightarrow> Span \<Rightarrow> doc" where
  "spanToOTLP now st span =
     (let attributes = map (\<lambda>(k, v). DMap [(''key'', DVal (GString k)), (''value'', valueToOTLP v)])
                           (read_map st (Attributes span));
          endTime = (if EndTime span = 0 then now else EndTime span)
      in DMap [(''traceId'', DVal (GString (TraceID span))),
               (''spanId'', DVal (GString (SpanID span))),
               (''name'', DVal (GString (Name span))),
               (''kind'', DVal (GInt 1)),
               (''startTimeUnixNano'', DVal (GString (dec_int (sint (StartTime span))))),
               (''endTimeUnixNano'', DVal (GString (dec_int (sint endTime)))),
               (''attributes'', DList attributes),
               (''status'', DMap (map (\<lambda>(k, v). (k, DVal v)) (Status span)))])"

text \<open>
  The loop of \<^verbatim>\<open>buildOTLPPayload\<close> over \<^verbatim>\<open>t.spans\<close>, from index \<open>i\<close> on; \<open>clock i\<close> is the
  reading of the clock during iteration \<open>i\<close>.  Following a nil pointer panics.
\<close>

fun encode_spans :: "(nat \<Rightarrow> int64) \<Rightarrow> state \<Rightarrow> nat \<Rightarrow> nat list \<Rightarrow> error + doc list" where
  "encode_spans clock st i [] = Inr []"
| "encode_spans clock st i (p # ps) =
     (case deref st p of
        None \<Rightarrow> Inl (Panic ''nil pointer dereference'')
      | Some span \<Rightarrow>
          (case encode_spans clock st (Suc i) ps of
             Inl e \<Rightarrow> Inl e
           | Inr ds \<Rightarrow> Inr (spanToOTLP (clock i) st span # ds)))"

definition buildOTLPPayload :: "(nat \<Rightarrow> int64) \<Rightarrow> state \<Rightarrow> error + doc" where
  "buildOTLPPayload clock st =
     (case encode_spans clock st 0 (spans (tracer st)) of
        Inl e \<Rightarrow> Inl e
      | Inr encoded \<Rightarrow>
          Inr (DMap [(''resourceSpans'', DList [
                 DMap [(''resource'', DMap [(''attributes'', DList [
                          DMap [(''key'', DVal (GString ''service.name'')),
                                (''value'', DMap [(''stringValue'', DVal (GString ''agentbill-go-sdk''))])],
                          DMap [(''key'', DVal (GString ''service.version'')),
                                (''value'', DMap [(''stringValue'', DVal (GString ''1.0.0''))])]])]),
                       (''scopeSpans'', DList [
                          DMap [(''scope'', DMap [(''name'', DVal (GString ''agentbill'')),
                                                  (''version'', DVal (GString ''1.0.0''))]),
                                (''spans'', DList encoded)]])]])]))"

section \<open>Flush\<close>

record request =
  http_method :: string
  url :: string
  authorization :: string
  content_type :: string
  body :: string

text \<open>
  What \<^verbatim>\<open>Flush\<close> takes from outside the repository: the clock, \<^verbatim>\<open>json.Marshal\<close>
  (an error text or the bytes), \<^verbatim>\<open>http.NewRequestWithContext\<close> (an error text when the
  request cannot be built for this URL and context) and \<^verbatim>\<open>client.Do\<close> (a transport error,
  which includes the context's cancellation and the 10 second timeout, or the status code
  of the response).
\<close>

record env =
  clock :: "nat \<Rightarrow> int64"
  marshal :: "doc \<Rightarrow> string + string"
  new_request :: "string \<Rightarrow> string option"
  transport :: "request \<Rightarrow> string + int"

text \<open>
  The result of one call: the returned \<^verbatim>\<open>error\<close> (\<open>None\<close> is \<^verbatim>\<open>nil\<close>), the state
  afterwards, the requests handed to \<^verbatim>\<open>client.Do\<close> and the lines printed.
\<close>

record flush_result =
  returned :: "error option"
  after :: state
  requests :: "request list"
  printed :: "string list"

definition Flush :: "env \<Rightarrow> state \<Rightarrow> flush_result" where
  "Flush e st =
     (if length (spans (tracer st)) = 0
      then \<lparr>returned = None, after = st, requests = [], printed = []\<rparr>
      else
        case buildOTLPPayload (clock e) st of
          Inl p \<Rightarrow> \<lparr>returned = Some p, after = st, requests = [], printed = []\<rparr>
        | Inr payload \<Rightarrow>
           (case marshal e payload of
              Inl msg \<Rightarrow> \<lparr>returned = Some (Err msg), after = st, requests = [], printed = []\<rparr>
            | Inr jsonData \<Rightarrow>
               (let u = BaseURL (config (tracer st)) @ ''/functions/v1/otel-collector''
                in case new_request e u of
                     Some msg \<Rightarrow>
                       \<lparr>returned = Some (Err msg), after = st, requests = [], printed = []\<rparr>
                   | None \<Rightarrow>
                      (let req = \<lparr>http_method = ''POST'', url = u,
                                  authorization = ''Bearer '' @ APIKey (config (tracer st)),
                                  content_type = ''application/json'', body = jsonData\<rparr>
                       in case transport e req of
                            Inl msg \<Rightarrow>
                              \<lparr>returned = Some (Err msg), after = st, requests = [req],
                               printed = []\<rparr>
                          | Inr code \<Rightarrow>
                              \<lparr>returned = None,
                               after = (if code = 200
                                        then st\<lparr>tracer := (tracer st)\<lparr>spans := []\<rparr>\<rparr>
                                        else st),
                               requests = [req],
                               printed = (if Debug (config (tracer st))
                                          then [''AgentBill flush: '' @ dec_int code @ [CHR 0x0A]]
                                          else [])\<rparr>))))"

section \<open>Init\<close>

text \<open>
  \<^verbatim>\<open>Init\<close> fills in the default base URL and makes the tracer.  The client adds nothing
  to the tracer's state, so the state after \<^verbatim>\<open>Init\<close> is the new tracer with no span
  object; \<open>ms\<close> is the store of map objects of the calling program.
\<close>

definition Init :: "Config \<Rightarrow> (nat \<Rightarrow> gmap) \<Rightarrow> state" where
  "Init cfg ms =
     (let cfg' = (if BaseURL cfg = ''''
                  then cfg\<lparr>BaseURL := ''https://uenhjwdtnxtchlmqarjo.supabase.co''\<rparr>
                  else cfg)
      in \<lparr>tracer = NewTracer cfg', objs = [], maps = ms\<rparr>)"

section \<open>Reading states and documents\<close>

text \<open>Every pointer in the buffer points to a span object.\<close>

definition buffer_ok :: "state \<Rightarrow> bool" where
  "buffer_ok st = list_all (\<lambda>p. p < length (objs st)) (spans (tracer st))"

text \<open>The span objects of the buffer, in the order of the buffer.\<close>

definition buffered :: "state \<Rightarrow> Span list" where
  "buffered st = map (\<lambda>p. objs st ! p) (spans (tracer st))"


definition field :: "string \<Rightarrow> doc \<Rightarrow> doc option" where
  "field k d = (case d of DMap kvs \<Rightarrow> map_of kvs k | _ \<Rightarrow> None)"

definition items :: "doc option \<Rightarrow> doc list" where
  "items d = (case d of Some (DList ds) \<Rightarrow> ds | _ \<Rightarrow> [])"


text \<open>A list of \<^verbatim>\<open>StartSpan\<close> calls, one after the other; a panic ends the run.\<close>

record start_call =
  trace_uuid :: uuid
  span_uuid :: uuid
  started_at :: int64
  span_name :: string
  attrs :: mapref

fun start_spans :: "start_call list \<Rightarrow> state \<Rightarrow> error + state" where
  "start_spans [] st = Inr st"
| "start_spans (c # cs) st =
     (case StartSpan (trace_uuid c) (span_uuid c) (started_at c) (span_name c) (attrs c) st of
        Inl e \<Rightarrow> Inl e
      | Inr (p, st') \<Rightarrow> start_spans cs st')"

section \<open>The usage of the repository's example\<close>

text \<open>
  The configuration of \<^verbatim>\<open>examples/openai_basic.go\<close>, the attribute map that
  \<^verbatim>\<open>ChatCompletion\<close> passes to \<^verbatim>\<open>StartSpan\<close> (map object 0 of the caller), and a
  collector that answers every request with the given status code.
\<close>

definition ex_config :: Config where
  "ex_config = \<lparr>APIKey = ''your-api-key'', BaseURL = '''', CustomerID = ''customer-123'',
                 Debug = True\<rparr>"

definition ex_maps :: "nat \<Rightarrow> gmap" where
  "ex_maps a = (if a = 0 then [(''model'', GString ''gpt-4o-mini''), (''provider'', GString ''openai'')]
                else [])"

definition ex_init :: state where
  "ex_init = Init ex_config ex_maps"

definition ex_env :: "int \<Rightarrow> env" where
  "ex_env code = \<lparr>clock = (\<lambda>i. 30), marshal = (\<lambda>d. Inr ''{}''),
                   new_request = (\<lambda>u. None), transport = (\<lambda>r. Inr code)\<rparr>"

definition ex_offline :: env where
  "ex_offline = \<lparr>clock = (\<lambda>i. 30), marshal = (\<lambda>d. Inr ''{}''),
                  new_request = (\<lambda>u. None), transport = (\<lambda>r. Inl ''connection refused'')\<rparr>"

definition ex_uuid1 :: uuid where
  "ex_uuid1 = UUID 0x6f 0x1c 0x2a 0x9e 0x0b 0x7d 0x4e 0x3a 0x9c 0x55 0x2d 0x8e 0x7f 0x4a 0x1b 0x60"

definition ex_uuid2 :: uuid where
  "ex_uuid2 = UUID 0xa3 0xb4 0xc5 0xd6 0xe7 0xf8 0x4a 0x1b 0x8c 0x2d 0x3e 0x4f 0x5a 0x6b 0x7c 0x8d"

definition ex_uuid3 :: uuid where
  "ex_uuid3 = UUID 0x0d 0x9c 0x8b 0x7a 0x6f 0x5e 0x4d 0x3c 0xb2 0xa1 0x90 0x8f 0x7e 0x6d 0x5c 0x4b"

definition ex_uuid4 :: uuid where
  "ex_uuid4 = UUID 0x11 0x22 0x33 0x44 0x55 0x66 0x47 0x78 0x89 0x9a 0xab 0xbc 0xcd 0xde 0xef 0xf0"

definition ex_call :: start_call where
  "ex_call = \<lparr>trace_uuid = ex_uuid1,
               span_uuid = ex_uuid2,
               started_at = 10, span_name = ''openai.chat.completion'', attrs = MapRef 0\<rparr>"

text \<open>The state after that call of \<^verbatim>\<open>StartSpan\<close>.\<close>

definition ex_started :: state where
  "ex_started = (case start_spans [ex_call] ex_init of Inr st \<Rightarrow> st | Inl e \<Rightarrow> ex_init)"

text \<open>The request that \<^verbatim>\<open>Flush\<close> builds in the state \<open>ex_started\<close>.\<close>

definition ex_request :: request where
  "ex_request = \<lparr>http_method = ''POST'',
                  url = ''https://uenhjwdtnxtchlmqarjo.supabase.co/functions/v1/otel-collector'',
                  authorization = ''Bearer your-api-key'',
                  content_type = ''application/json'', body = ''{}''\<rparr>"

text \<open>
  Further states of the example: the span ended at clock reading 20, ended once more at
  reading 25, and (instead) given an attribute of type \<^verbatim>\<open>int32\<close>.
\<close>

definition ex_ended :: state where
  "ex_ended = (case End 20 0 ex_started of Inr st \<Rightarrow> st | Inl e \<Rightarrow> ex_started)"

definition ex_ended_again :: state where
  "ex_ended_again = (case End 25 0 ex_ended of Inr st \<Rightarrow> st | Inl e \<Rightarrow> ex_ended)"

definition ex_tagged :: state where
  "ex_tagged = (case SetAttribute 0 ''max_tokens'' (GInt32 256) ex_started of
                  Inr st \<Rightarrow> st | Inl e \<Rightarrow> ex_started)"

text \<open>
  A client configured without a customer id, whose caller passes a map (map object 2)
  that already has an entry under \<^verbatim>\<open>customer.id\<close>, and the state after \<^verbatim>\<open>StartSpan\<close>
  with that map.
\<close>

definition ex_anonymous :: state where
  "ex_anonymous = Init (ex_config\<lparr>CustomerID := ''''\<rparr>)
                       (ex_maps(2 := [(''customer.id'', GString '''')]))"

definition ex_anonymous_started :: state where
  "ex_anonymous_started =
     (case start_spans [ex_call\<lparr>attrs := MapRef 2\<rparr>] ex_anonymous of
        Inr st \<Rightarrow> st | Inl e \<Rightarrow> ex_anonymous)"

text \<open>
  The encoded spans of a payload: the entries under \<^verbatim>\<open>spans\<close> of every scope of every
  resource, in order.  The test of the specification on one encoded span: both time fields
  read as decimal integers, and the start is not after the end.
\<close>

definition encoded_spans :: "error + doc \<Rightarrow> doc list" where
  "encoded_spans r =
     (case r of
        Inl e \<Rightarrow> []
      | Inr d \<Rightarrow>
          concat (map (\<lambda>rs. concat (map (\<lambda>sc. items (field ''spans'' sc))
                                         (items (field ''scopeSpans'' rs))))
                      (items (field ''resourceSpans'' d))))"



text \<open>A second call of \<^verbatim>\<open>StartSpan\<close>, with the caller's map object 1.\<close>

definition ex_call2 :: start_call where
  "ex_call2 = \<lparr>trace_uuid = ex_uuid3,
                span_uuid = ex_uuid4,
                started_at = 12, span_name = ''openai.embeddings'', attrs = MapRef 1\<rparr>"

text \<open>The state after both calls of \<^verbatim>\<open>StartSpan\<close>.\<close>

definition ex_two :: state where
  "ex_two = (case start_spans [ex_call, ex_call2] ex_init of Inr st \<Rightarrow> st | Inl e \<Rightarrow> ex_init)"

section \<open>Decimal text reads back\<close>










section \<open>The example state\<close>

lemma ex_uuid_strings:
  "uuid_String ex_uuid1 = ''6f1c2a9e-0b7d-4e3a-9c55-2d8e7f4a1b60''"
  "take 16 (uuid_String ex_uuid2) = ''a3b4c5d6-e7f8-4a''"
  by (simp_all add: ex_uuid1_def ex_uuid2_def hex_byte_def hex_digit_def)

lemma ex_started_eq:
  "ex_started =
     \<lparr>tracer = \<lparr>config = \<lparr>APIKey = ''your-api-key'',
                           BaseURL = ''https://uenhjwdtnxtchlmqarjo.supabase.co'',
                           CustomerID = ''customer-123'', Debug = True\<rparr>,
                spans = [0]\<rparr>,
      objs = [\<lparr>Name = ''openai.chat.completion'',
               TraceID = ''6f1c2a9e-0b7d-4e3a-9c55-2d8e7f4a1b60'',
               SpanID = ''a3b4c5d6-e7f8-4a'', Attributes = MapRef 0,
               StartTime = 10, EndTime = 0, Status = [(''code'', GInt 0)]\<rparr>],
      maps = ex_maps(0 := [(''model'', GString ''gpt-4o-mini''), (''provider'', GString ''openai''),
                           (''service.name'', GString ''agentbill-go-sdk''),
                           (''customer.id'', GString ''customer-123'')])\<rparr>"
  by (simp add: ex_started_def ex_init_def Init_def ex_call_def StartSpan_def ex_uuid_strings ex_config_def
      NewTracer_def ex_maps_def)

lemma ex_requests: "requests (Flush (ex_env code) ex_started) = [ex_request]"
  by (simp add: ex_started_eq Flush_def buildOTLPPayload_def deref_def ex_env_def ex_request_def
      split: sum.splits)

lemma ex_requests_offline: "requests (Flush ex_offline ex_started) = [ex_request]"
  by (simp add: ex_started_eq Flush_def buildOTLPPayload_def deref_def ex_offline_def
      ex_request_def split: sum.splits)

section \<open>Flush and the buffer\<close>

lemma Flush_transport_error:
  "requests (Flush e st) = [req] \<Longrightarrow> transport e req = Inl msg \<Longrightarrow>
     returned (Flush e st) = Some (Err msg) \<and> after (Flush e st) = st"
  by (auto simp: Flush_def Let_def split: sum.splits option.splits if_splits)

lemma Flush_response:
  "requests (Flush e st) = [req] \<Longrightarrow> transport e req = Inr code \<Longrightarrow>
     returned (Flush e st) = None \<and>
     after (Flush e st) = (if code = 200 then st\<lparr>tracer := (tracer st)\<lparr>spans := []\<rparr>\<rparr> else st)"
  by (auto simp: Flush_def Let_def split: sum.splits option.splits if_splits)

lemma Flush_empty:
  "spans (tracer st) = [] \<Longrightarrow>
     Flush e st = \<lparr>returned = None, after = st, requests = [], printed = []\<rparr>"
  by (simp add: Flush_def)

text \<open>
  C1.  Whenever a call of \<^verbatim>\<open>Flush\<close> hands its request \<open>req\<close> to \<^verbatim>\<open>client.Do\<close> and that
  ends in a transport error or in a response whose status is not 200, the state after the
  call is the state before it: the buffer holds the same pointers in the same order, and
  they point to the same span objects.
\<close>

theorem Flush_failure_retains_buffer:
  assumes "requests (Flush e st) = [req]" and "transport e req \<noteq> Inr 200"
  shows "after (Flush e st) = st
         \<and> spans (tracer (after (Flush e st))) = spans (tracer st)
         \<and> buffered (after (Flush e st)) = buffered st"
proof (cases "transport e req")
  case (Inl msg)
  with assms(1) show ?thesis by (simp add: Flush_transport_error)
next
  case (Inr code)
  with assms have "after (Flush e st) = st" by (simp add: Flush_response)
  then show ?thesis by simp
qed

theorem Flush_failure_retains_buffer_witness:
  "requests (Flush (ex_env 503) ex_started) = [ex_request]
   \<and> transport (ex_env 503) ex_request \<noteq> Inr 200
   \<and> requests (Flush ex_offline ex_started) = [ex_request]
   \<and> transport ex_offline ex_request \<noteq> Inr 200
   \<and> after (Flush (ex_env 503) ex_started) = ex_started
   \<and> after (Flush ex_offline ex_started) = ex_started
   \<and> spans (tracer ex_started) = [0]"
proof -
  have t1: "transport (ex_env 503) ex_request \<noteq> Inr 200" by (simp add: ex_env_def)
  have t2: "transport ex_offline ex_request \<noteq> Inr 200" by (simp add: ex_offline_def)
  show ?thesis
    using Flush_failure_retains_buffer [OF ex_requests t1]
      Flush_failure_retains_buffer [OF ex_requests_offline t2] t1 t2
      ex_requests [of 503] ex_requests_offline
    by (simp add: ex_started_eq)
qed

text \<open>
  C2.  Whenever the collector answers the request of a \<^verbatim>\<open>Flush\<close> call with status 200,
  the buffer is empty after the call, and a further \<^verbatim>\<open>Flush\<close> in that state (in any
  environment \<open>e'\<close>) does nothing: it returns nil, sends no request, prints nothing and
  leaves the state as it is.
\<close>

theorem Flush_success_clears_buffer:
  assumes "requests (Flush e st) = [req]" and "transport e req = Inr 200"
  shows "spans (tracer (after (Flush e st))) = []
         \<and> Flush e' (after (Flush e st)) =
             \<lparr>returned = None, after = after (Flush e st), requests = [], printed = []\<rparr>"
proof -
  from assms have "spans (tracer (after (Flush e st))) = []" by (simp add: Flush_response)
  then show ?thesis by (simp add: Flush_empty)
qed

theorem Flush_success_clears_buffer_witness:
  "requests (Flush (ex_env 200) ex_started) = [ex_request]
   \<and> transport (ex_env 200) ex_request = Inr 200
   \<and> spans (tracer ex_started) = [0]
   \<and> spans (tracer (after (Flush (ex_env 200) ex_started))) = []
   \<and> requests (Flush (ex_env 200) (after (Flush (ex_env 200) ex_started))) = []"
proof -
  have t: "transport (ex_env 200) ex_request = Inr 200" by (simp add: ex_env_def)
  show ?thesis
    using Flush_success_clears_buffer [OF ex_requests t, of "ex_env 200"] t ex_requests [of 200]
    by (simp add: ex_started_eq)
qed

text \<open>
  C7.  When the request of a \<^verbatim>\<open>Flush\<close> call is answered with a status outside 200..299,
  \<^verbatim>\<open>Flush\<close> returns nil, and the state, with its buffer, is the one before the call.
\<close>

theorem Flush_non_2xx_returns_nil:
  assumes "requests (Flush e st) = [req]" and "transport e req = Inr code"
    and "code < 200 \<or> 300 \<le> code"
  shows "returned (Flush e st) = None \<and> after (Flush e st) = st
         \<and> spans (tracer (after (Flush e st))) = spans (tracer st)"
  using Flush_response [OF assms(1,2)] assms(3) by auto

theorem Flush_non_2xx_returns_nil_witness:
  "requests (Flush (ex_env 503) ex_started) = [ex_request]
   \<and> transport (ex_env 503) ex_request = Inr 503
   \<and> ((503::int) < 200 \<or> (300::int) \<le> 503)
   \<and> returned (Flush (ex_env 503) ex_started) = None
   \<and> after (Flush (ex_env 503) ex_started) = ex_started
   \<and> spans (tracer ex_started) = [0]"
proof -
  have t: "transport (ex_env 503) ex_request = Inr 503" by (simp add: ex_env_def)
  show ?thesis
    using Flush_non_2xx_returns_nil [OF ex_requests t] t ex_requests [of 503]
    by (simp add: ex_started_eq)
qed

text \<open>
  C8.  A \<^verbatim>\<open>Flush\<close> call on an empty buffer hands no request to \<^verbatim>\<open>client.Do\<close> and
  returns nil; the state stays as it is.
\<close>

theorem Flush_empty_buffer_no_request:
  assumes "spans (tracer st) = []"
  shows "requests (Flush e st) = [] \<and> returned (Flush e st) = None \<and> after (Flush e st) = st"
  using assms by (simp add: Flush_empty)

theorem Flush_empty_buffer_no_request_witness:
  "spans (tracer ex_init) = []
   \<and> requests (Flush (ex_env 200) ex_init) = []
   \<and> returned (Flush (ex_env 200) ex_init) = None
   \<and> after (Flush (ex_env 200) ex_init) = ex_init"
proof -
  have b: "spans (tracer ex_init) = []" by (simp add: ex_init_def Init_def NewTracer_def)
  show ?thesis using Flush_empty_buffer_no_request [OF b, of "ex_env 200"] b by simp
qed

section \<open>Spans and their attributes\<close>

lemma End_valid:
  "s < length (objs st) \<Longrightarrow>
     End now s st = Inr (st\<lparr>objs := (objs st)[s := (objs st ! s)\<lparr>EndTime := now\<rparr>]\<rparr>)"
  by (simp add: End_def deref_def)

lemma ex_ended_eq:
  "ex_ended = ex_started\<lparr>objs := [(objs ex_started ! 0)\<lparr>EndTime := 20\<rparr>]\<rparr>"
  by (simp add: ex_ended_def End_valid ex_started_eq)

lemma ex_ended_again_eq:
  "ex_ended_again = ex_started\<lparr>objs := [(objs ex_started ! 0)\<lparr>EndTime := 25\<rparr>]\<rparr>"
  by (simp add: ex_ended_again_def ex_ended_eq End_valid ex_started_eq)

text \<open>
  C3, as the claim states it, fails: in the example the first \<^verbatim>\<open>End\<close> sets the end time
  to 20, and a second \<^verbatim>\<open>End\<close> at clock reading 25 moves it to 25.
\<close>

theorem End_twice_moves_end_time:
  "End 20 0 ex_started = Inr ex_ended
   \<and> map EndTime (objs ex_ended) = [20]
   \<and> End 25 0 ex_ended = Inr ex_ended_again
   \<and> map EndTime (objs ex_ended_again) = [25]"
  by (simp add: ex_ended_eq ex_ended_again_eq End_valid ex_started_eq)

text \<open>
  C3, amended.  \<^verbatim>\<open>End\<close> on a span sets its end time to the current clock reading on
  every call, whether or not an end time is already set: after a first call at reading
  \<open>t1\<close> the end time is \<open>t1\<close>, after a second call at reading \<open>t2\<close> it is \<open>t2\<close>, and the
  state is the one that the second call alone would have produced.
\<close>

theorem End_sets_end_time_every_call:
  assumes "s < length (objs st)"
  shows "\<exists>st1 st2. End t1 s st = Inr st1 \<and> EndTime (objs st1 ! s) = t1
           \<and> End t2 s st1 = Inr st2 \<and> EndTime (objs st2 ! s) = t2
           \<and> End t2 s st = Inr st2"
  using assms by (simp add: End_valid)

theorem End_sets_end_time_every_call_witness:
  "(0::nat) < length (objs ex_started)
   \<and> End 20 0 ex_started = Inr ex_ended \<and> EndTime (objs ex_ended ! 0) = 20
   \<and> End 25 0 ex_ended = Inr ex_ended_again \<and> EndTime (objs ex_ended_again ! 0) = 25
   \<and> End 25 0 ex_started = Inr ex_ended_again"
proof -
  have v: "(0::nat) < length (objs ex_started)" by (simp add: ex_started_eq)
  from End_sets_end_time_every_call [OF v, of 20 25] v show ?thesis
    by (simp add: ex_ended_eq ex_ended_again_eq End_valid ex_started_eq)
qed

lemma map_of_update_same: "map_of (AList.update k v al) k = Some v"
  by (simp add: update_conv')

lemma map_of_update_other: "k' \<noteq> k \<Longrightarrow> map_of (AList.update k v al) k' = map_of al k'"
  by (simp add: update_conv')




lemma SetAttribute_Inr:
  assumes "SetAttribute s k v st = Inr st'"
  shows "\<exists>a. s < length (objs st) \<and> Attributes (objs st ! s) = MapRef a
             \<and> st' = st\<lparr>maps := (maps st)(a := AList.update k v (maps st a))\<rparr>"
  using assms by (auto simp: SetAttribute_def deref_def split: if_splits mapref.splits)

lemma StartSpan_MapRef:
  "StartSpan u1 u2 now name (MapRef a) st =
     Inr (length (objs st),
          st\<lparr>tracer := (tracer st)\<lparr>spans := spans (tracer st) @ [length (objs st)]\<rparr>,
             objs := objs st @ [\<lparr>Name = name, TraceID = uuid_String u1,
                                  SpanID = take 16 (uuid_String u2),
                                  Attributes = MapRef a, StartTime = now, EndTime = 0,
                                  Status = [(''code'', GInt 0)]\<rparr>],
             maps := (if CustomerID (config (tracer st)) \<noteq> ''''
                      then (maps st)(a := AList.update ''customer.id''
                              (GString (CustomerID (config (tracer st))))
                              (AList.update ''service.name'' (GString ''agentbill-go-sdk'')
                                 (maps st a)))
                      else (maps st)(a := AList.update ''service.name''
                              (GString ''agentbill-go-sdk'') (maps st a)))\<rparr>)"
  by (simp add: StartSpan_def Let_def)

lemma StartSpan_NilMap:
  "StartSpan u1 u2 now name NilMap st = Inl (Panic ''assignment to entry in nil map'')"
  by (simp add: StartSpan_def)

lemma ex_start:
  "StartSpan ex_uuid1 ex_uuid2
     10 ''openai.chat.completion'' (MapRef 0) ex_init = Inr (0, ex_started)"
  by (simp add: ex_started_def ex_call_def ex_init_def Init_def NewTracer_def StartSpan_def
      ex_config_def)

lemma ex_tagged_eq:
  "ex_tagged = ex_started\<lparr>maps := (maps ex_started)
      (0 := [(''model'', GString ''gpt-4o-mini''), (''provider'', GString ''openai''),
             (''service.name'', GString ''agentbill-go-sdk''),
             (''customer.id'', GString ''customer-123''),
             (''max_tokens'', GInt32 256)])\<rparr>"
  by (simp add: ex_tagged_def SetAttribute_def deref_def ex_started_eq)




section \<open>StartSpan\<close>

lemma buffer_ok_append:
  "buffer_ok st \<Longrightarrow> map (\<lambda>p. (objs st @ xs) ! p) (spans (tracer st)) = buffered st"
  by (auto simp: buffer_ok_def buffered_def list_all_iff nth_append)

lemma ex_anonymous_started_eq:
  "ex_anonymous_started =
     \<lparr>tracer = \<lparr>config = \<lparr>APIKey = ''your-api-key'',
                           BaseURL = ''https://uenhjwdtnxtchlmqarjo.supabase.co'',
                           CustomerID = '''', Debug = True\<rparr>,
                spans = [0]\<rparr>,
      objs = [\<lparr>Name = ''openai.chat.completion'',
               TraceID = ''6f1c2a9e-0b7d-4e3a-9c55-2d8e7f4a1b60'',
               SpanID = ''a3b4c5d6-e7f8-4a'', Attributes = MapRef 2,
               StartTime = 10, EndTime = 0, Status = [(''code'', GInt 0)]\<rparr>],
      maps = (ex_maps(2 := [(''customer.id'', GString '''')]))
                (2 := [(''customer.id'', GString ''''),
                       (''service.name'', GString ''agentbill-go-sdk'')])\<rparr>"
  by (simp add: ex_anonymous_started_def ex_anonymous_def ex_call_def Init_def NewTracer_def
      StartSpan_def ex_uuid_strings ex_config_def)

lemma ex_anonymous_start:
  "StartSpan ex_uuid1 ex_uuid2
     10 ''openai.chat.completion'' (MapRef 2) ex_anonymous = Inr (0, ex_anonymous_started)"
  by (simp add: ex_anonymous_started_def ex_anonymous_def ex_call_def Init_def NewTracer_def
      StartSpan_def ex_config_def)

text \<open>
  C6, as the claim states it, fails at two inputs.  With a nil attribute map
  \<^verbatim>\<open>StartSpan\<close> panics and appends nothing.  With no customer id configured and a caller's
  map that already has \<^verbatim>\<open>"customer.id": ""\<close>, the span carries a \<^verbatim>\<open>customer.id\<close>
  attribute, and one equal to the configured value, although that value is empty.
\<close>

theorem StartSpan_nil_map_or_callers_customer_id:
  "StartSpan ex_uuid1 ex_uuid2
     10 ''openai.chat.completion'' NilMap ex_init = Inl (Panic ''assignment to entry in nil map'')
   \<and> StartSpan ex_uuid1 ex_uuid2
        10 ''openai.chat.completion'' (MapRef 2) ex_anonymous = Inr (0, ex_anonymous_started)
   \<and> CustomerID (config (tracer ex_anonymous)) = ''''
   \<and> map_of (read_map ex_anonymous_started (Attributes (objs ex_anonymous_started ! 0)))
        ''customer.id'' = Some (GString (CustomerID (config (tracer ex_anonymous))))"
  by (simp add: StartSpan_NilMap ex_anonymous_start)
     (simp add: ex_anonymous_started_eq ex_anonymous_def Init_def NewTracer_def ex_config_def
        read_map_def)

text \<open>
  C6, amended.  Every \<^verbatim>\<open>StartSpan\<close> call with a non-nil attribute map returns and appends
  exactly one pointer, to the new span, at the end of the buffer.  The span's attribute map
  has \<^verbatim>\<open>service.name\<close> set to the SDK constant; when the configured customer id is
  non-empty it has \<^verbatim>\<open>customer.id\<close> set to it; when the configured customer id is empty,
  \<^verbatim>\<open>StartSpan\<close> writes no \<^verbatim>\<open>customer.id\<close>, so that entry is whatever the caller's map
  had (none, if it had none).  The span's status code is 0.
\<close>

theorem StartSpan_appends_identified_span:
  "\<exists>p st' sp. StartSpan u1 u2 now name (MapRef a) st = Inr (p, st')
     \<and> spans (tracer st') = spans (tracer st) @ [p]
     \<and> deref st' p = Some sp
     \<and> (buffer_ok st \<longrightarrow> buffered st' = buffered st @ [sp])
     \<and> map_of (read_map st' (Attributes sp)) ''service.name'' = Some (GString ''agentbill-go-sdk'')
     \<and> (CustomerID (config (tracer st)) \<noteq> '''' \<longrightarrow>
          map_of (read_map st' (Attributes sp)) ''customer.id''
            = Some (GString (CustomerID (config (tracer st)))))
     \<and> (CustomerID (config (tracer st)) = '''' \<longrightarrow>
          map_of (read_map st' (Attributes sp)) ''customer.id''
            = map_of (maps st a) ''customer.id'')
     \<and> map_of (Status sp) ''code'' = Some (GInt 0)"
  by (simp add: StartSpan_MapRef deref_def read_map_def buffered_def buffer_ok_append
      map_of_update_same map_of_update_other)

theorem StartSpan_appends_identified_span_witness:
  "StartSpan ex_uuid1 ex_uuid2
     10 ''openai.chat.completion'' (MapRef 0) ex_init = Inr (0, ex_started)
   \<and> spans (tracer ex_init) = [] \<and> spans (tracer ex_started) = [0]
   \<and> buffer_ok ex_init \<and> buffered ex_init = [] \<and> buffered ex_started = [objs ex_started ! 0]
   \<and> CustomerID (config (tracer ex_init)) \<noteq> ''''
   \<and> map_of (maps ex_started 0) ''service.name'' = Some (GString ''agentbill-go-sdk'')
   \<and> map_of (maps ex_started 0) ''customer.id'' = Some (GString ''customer-123'')
   \<and> map_of (Status (objs ex_started ! 0)) ''code'' = Some (GInt 0)
   \<and> CustomerID (config (tracer ex_anonymous)) = ''''
   \<and> StartSpan ex_uuid1 ex_uuid2
        10 ''openai.chat.completion'' (MapRef 2) ex_anonymous = Inr (0, ex_anonymous_started)
   \<and> map_of (maps ex_anonymous_started 2) ''customer.id'' = map_of (maps ex_anonymous 2) ''customer.id''"
proof -
  have w: "buffer_ok ex_init \<and> buffered ex_init = [] \<and> spans (tracer ex_init) = []
           \<and> CustomerID (config (tracer ex_init)) \<noteq> ''''"
    by (simp add: buffer_ok_def buffered_def ex_init_def Init_def NewTracer_def ex_config_def)
  have c: "CustomerID (config (tracer ex_anonymous)) = ''''"
    by (simp add: ex_anonymous_def Init_def NewTracer_def ex_config_def)
  have s: "spans (tracer ex_started) = [0] \<and> buffered ex_started = [objs ex_started ! 0]
           \<and> map_of (maps ex_started 0) ''service.name'' = Some (GString ''agentbill-go-sdk'')
           \<and> map_of (maps ex_started 0) ''customer.id'' = Some (GString ''customer-123'')
           \<and> map_of (Status (objs ex_started ! 0)) ''code'' = Some (GInt 0)"
    by (simp add: ex_started_eq buffered_def)
  have m: "map_of (maps ex_anonymous_started 2) ''customer.id''
             = map_of (maps ex_anonymous 2) ''customer.id''"
    by (simp add: ex_anonymous_started_eq ex_anonymous_def Init_def)
  from StartSpan_appends_identified_span
         [of ex_uuid1 ex_uuid2
             10 "''openai.chat.completion''" 0 ex_init]
       StartSpan_appends_identified_span
         [of ex_uuid1 ex_uuid2
             10 "''openai.chat.completion''" 2 ex_anonymous]
       w c s m ex_start ex_anonymous_start
  show ?thesis by blast
qed

text \<open>
  C10.  \<^verbatim>\<open>StartSpan\<close> with a non-nil map returns; the new span's \<^verbatim>\<open>Attributes\<close> is the
  very reference the caller passed, the injected \<^verbatim>\<open>service.name\<close> is written into that
  map object, its other entries (apart from \<^verbatim>\<open>customer.id\<close>) and all other map objects
  stay as they are, and a later \<^verbatim>\<open>SetAttribute\<close> through the span writes into the same
  map object.  With a nil map \<^verbatim>\<open>StartSpan\<close> panics on the write of the injected
  attribute.
\<close>

theorem StartSpan_shares_callers_map:
  "(\<exists>p st' sp. StartSpan u1 u2 now name (MapRef a) st = Inr (p, st')
      \<and> deref st' p = Some sp
      \<and> Attributes sp = MapRef a
      \<and> map_of (maps st' a) ''service.name'' = Some (GString ''agentbill-go-sdk'')
      \<and> (\<forall>k. k \<noteq> ''service.name'' \<longrightarrow> k \<noteq> ''customer.id'' \<longrightarrow>
             map_of (maps st' a) k = map_of (maps st a) k)
      \<and> (\<forall>b. b \<noteq> a \<longrightarrow> maps st' b = maps st b)
      \<and> SetAttribute p k v st'
          = Inr (st'\<lparr>maps := (maps st')(a := AList.update k v (maps st' a))\<rparr>))
   \<and> StartSpan u1 u2 now name NilMap st = Inl (Panic ''assignment to entry in nil map'')"
  by (simp add: StartSpan_MapRef StartSpan_NilMap deref_def SetAttribute_def
      map_of_update_same map_of_update_other)

theorem StartSpan_shares_callers_map_witness:
  "StartSpan ex_uuid1 ex_uuid2
     10 ''openai.chat.completion'' (MapRef 0) ex_init = Inr (0, ex_started)
   \<and> Attributes (objs ex_started ! 0) = MapRef 0
   \<and> map_of (maps ex_init 0) ''service.name'' = None
   \<and> map_of (maps ex_started 0) ''service.name'' = Some (GString ''agentbill-go-sdk'')
   \<and> ''model'' \<noteq> ''service.name'' \<and> ''model'' \<noteq> ''customer.id''
   \<and> map_of (maps ex_started 0) ''model'' = map_of (maps ex_init 0) ''model''
   \<and> (2::nat) \<noteq> 0 \<and> maps ex_started 2 = maps ex_init 2
   \<and> SetAttribute 0 ''max_tokens'' (GInt32 256) ex_started = Inr ex_tagged
   \<and> map_of (maps ex_tagged 0) ''max_tokens'' = Some (GInt32 256)
   \<and> StartSpan ex_uuid1 ex_uuid2
        10 ''openai.chat.completion'' NilMap ex_init
        = Inl (Panic ''assignment to entry in nil map'')"
proof -
  have i: "map_of (maps ex_init 0) ''service.name'' = None
           \<and> map_of (maps ex_started 0) ''model'' = map_of (maps ex_init 0) ''model''
           \<and> maps ex_started 2 = maps ex_init 2"
    by (simp add: ex_started_eq ex_init_def Init_def ex_maps_def)
  have n: "''model'' \<noteq> ''service.name'' \<and> ''model'' \<noteq> ''customer.id'' \<and> (2::nat) \<noteq> 0"
    by simp
  have t: "SetAttribute 0 ''max_tokens'' (GInt32 256) ex_started = Inr ex_tagged
           \<and> map_of (maps ex_tagged 0) ''max_tokens'' = Some (GInt32 256)
           \<and> Attributes (objs ex_started ! 0) = MapRef 0
           \<and> map_of (maps ex_started 0) ''service.name'' = Some (GString ''agentbill-go-sdk'')"
    by (simp add: ex_tagged_eq) (simp add: SetAttribute_def deref_def ex_started_eq)
  from StartSpan_shares_callers_map
         [of ex_uuid1 ex_uuid2
             10 "''openai.chat.completion''" 0 ex_init "''max_tokens''" "GInt32 256"]
       ex_start i n t
  show ?thesis by blast
qed



section \<open>The buffer stays in order\<close>

text \<open>
  \<open>buffer_ok\<close> holds after \<^verbatim>\<open>Init\<close> and is kept by every operation of the tracer, so
  it holds in every state the program can reach: \<^verbatim>\<open>t.spans\<close> is not exported, and only
  \<^verbatim>\<open>StartSpan\<close> and \<^verbatim>\<open>Flush\<close> assign to it.
\<close>

lemma buffer_ok_Init: "buffer_ok (Init cfg ms)"
  by (simp add: buffer_ok_def Init_def NewTracer_def Let_def)

lemma buffer_ok_StartSpan:
  "buffer_ok st \<Longrightarrow> StartSpan u1 u2 now name attributes st = Inr (p, st') \<Longrightarrow> buffer_ok st'"
  by (cases attributes)
     (auto simp: StartSpan_NilMap StartSpan_MapRef buffer_ok_def list_all_iff less_Suc_eq)

lemma buffer_ok_SetAttribute:
  "buffer_ok st \<Longrightarrow> SetAttribute s k v st = Inr st' \<Longrightarrow> buffer_ok st'"
  by (auto simp: buffer_ok_def dest!: SetAttribute_Inr)

lemma buffer_ok_SetStatus:
  "buffer_ok st \<Longrightarrow> SetStatus s code message st = Inr st' \<Longrightarrow> buffer_ok st'"
  by (auto simp: buffer_ok_def SetStatus_def split: option.splits)

lemma buffer_ok_End:
  "buffer_ok st \<Longrightarrow> End now s st = Inr st' \<Longrightarrow> buffer_ok st'"
  by (auto simp: buffer_ok_def End_def split: option.splits)

lemma after_Flush:
  "after (Flush e st) = st \<or> after (Flush e st) = st\<lparr>tracer := (tracer st)\<lparr>spans := []\<rparr>\<rparr>"
  by (simp add: Flush_def Let_def split: sum.splits option.splits)

lemma buffer_ok_Flush: "buffer_ok st \<Longrightarrow> buffer_ok (after (Flush e st))"
  using after_Flush [of e st] by (auto simp: buffer_ok_def)

section \<open>The encoder\<close>

lemma encode_spans_valid:
  "list_all (\<lambda>p. p < length (objs st)) ps \<Longrightarrow>
     encode_spans clk st i ps =
       Inr (map (\<lambda>j. spanToOTLP (clk (i + j)) st (objs st ! (ps ! j))) [0..<length ps])"
proof (induction ps arbitrary: i)
  case Nil
  then show ?case by simp
next
  case (Cons p ps)
  have "map (\<lambda>j. spanToOTLP (clk (i + j)) st (objs st ! ((p # ps) ! j))) [0..<length (p # ps)]
          = spanToOTLP (clk i) st (objs st ! p)
            # map (\<lambda>j. spanToOTLP (clk (Suc i + j)) st (objs st ! (ps ! j))) [0..<length ps]"
    by (simp add: upt_conv_Cons del: upt_Suc) (simp add: map_Suc_upt [symmetric] del: upt_Suc)
  with Cons show ?case by (simp add: deref_def)
qed

lemma buildOTLPPayload_ok:
  assumes "buffer_ok st"
  shows "buildOTLPPayload clk st =
     Inr (DMap [(''resourceSpans'', DList [
                 DMap [(''resource'', DMap [(''attributes'', DList [
                          DMap [(''key'', DVal (GString ''service.name'')),
                                (''value'', DMap [(''stringValue'', DVal (GString ''agentbill-go-sdk''))])],
                          DMap [(''key'', DVal (GString ''service.version'')),
                                (''value'', DMap [(''stringValue'', DVal (GString ''1.0.0''))])]])]),
                       (''scopeSpans'', DList [
                          DMap [(''scope'', DMap [(''name'', DVal (GString ''agentbill'')),
                                                  (''version'', DVal (GString ''1.0.0''))]),
                                (''spans'', DList (map (\<lambda>j. spanToOTLP (clk j) st (buffered st ! j))
                                                      [0..<length (spans (tracer st))]))]])]])])"
  using assms by (simp add: buildOTLPPayload_def buffer_ok_def encode_spans_valid buffered_def)



lemma name_field: "field ''name'' (spanToOTLP now st sp) = Some (DVal (GString (Name sp)))"
  by (simp add: field_def spanToOTLP_def)

lemma start_spans_Inr:
  "start_spans calls st0 = Inr st \<Longrightarrow>
     spans (tracer st) = spans (tracer st0) @ [length (objs st0)..<length (objs st0) + length calls]
     \<and> (\<exists>new. objs st = objs st0 @ new \<and> map Name new = map span_name calls)"
proof (induction calls arbitrary: st0)
  case Nil
  then show ?case by simp
next
  case (Cons c cs)
  from Cons.prems obtain a where a: "attrs c = MapRef a"
    by (cases "attrs c") (simp_all add: StartSpan_NilMap)
  let ?sp = "\<lparr>Name = span_name c, TraceID = uuid_String (trace_uuid c),
              SpanID = take 16 (uuid_String (span_uuid c)),
              Attributes = MapRef a, StartTime = started_at c, EndTime = 0,
              Status = [(''code'', GInt 0)]\<rparr>"
  from Cons.prems a obtain st1 where
    st1: "start_spans cs st1 = Inr st"
    and b1: "spans (tracer st1) = spans (tracer st0) @ [length (objs st0)]"
    and o1: "objs st1 = objs st0 @ [?sp]"
    by (simp add: StartSpan_MapRef)
  from Cons.IH [OF st1] obtain new where
    b: "spans (tracer st) = spans (tracer st1) @ [length (objs st1)..<length (objs st1) + length cs]"
    and o: "objs st = objs st1 @ new" and n: "map Name new = map span_name cs"
    by blast
  have "spans (tracer st) = spans (tracer st0) @ [length (objs st0)..<length (objs st0) + length (c # cs)]"
    using b b1 o1 by (simp add: upt_conv_Cons del: upt_Suc)
  moreover have "objs st = objs st0 @ (?sp # new) \<and> map Name (?sp # new) = map span_name (c # cs)"
    using o o1 n by simp
  ultimately show ?case by blast
qed

lemma start_spans_buffer_ok:
  assumes "buffer_ok st0" and "start_spans calls st0 = Inr st"
  shows "buffer_ok st"
proof -
  from start_spans_Inr [OF assms(2)] obtain new where
    b: "spans (tracer st) = spans (tracer st0) @ [length (objs st0)..<length (objs st0) + length calls]"
    and o: "objs st = objs st0 @ new" and n: "map Name new = map span_name calls"
    by blast
  from n have "length new = length calls" by (metis length_map)
  with assms(1) b o show ?thesis by (auto simp: buffer_ok_def list_all_iff)
qed

lemma start_spans_names:
  assumes "buffer_ok st0" and "start_spans calls st0 = Inr st" and "j < length calls"
  shows "Name (buffered st ! (length (spans (tracer st0)) + j)) = span_name (calls ! j)"
proof -
  from start_spans_Inr [OF assms(2)] obtain new where
    b: "spans (tracer st) = spans (tracer st0) @ [length (objs st0)..<length (objs st0) + length calls]"
    and o: "objs st = objs st0 @ new" and n: "map Name new = map span_name calls"
    by blast
  from n have l: "length new = length calls" by (metis length_map)
  have "buffered st ! (length (spans (tracer st0)) + j) = objs st ! (length (objs st0) + j)"
    using b assms(3) by (simp add: buffered_def nth_append)
  also have "\<dots> = new ! j" using o by simp
  also have "Name (new ! j) = map Name new ! j" using l assms(3) by simp
  finally show ?thesis using n assms(3) by simp
qed

text \<open>
  C9.  After any list of \<^verbatim>\<open>StartSpan\<close> calls that return, made in a state whose buffer
  is in order (the empty list of calls gives every such state), the payload is built, and
  it has exactly one entry under \<^verbatim>\<open>resourceSpans\<close>; its resource carries exactly the two
  attributes \<^verbatim>\<open>service.name\<close> and \<^verbatim>\<open>service.version\<close>; it has exactly one entry under
  \<^verbatim>\<open>scopeSpans\<close>, with the scope's fixed name and version; the spans of that scope are
  as many as the buffer has pointers, the \<open>i\<close>-th being the encoding of the \<open>i\<close>-th
  buffered span; and the spans started by the calls come after those that were there, in
  the order of the calls.
\<close>

theorem encoder_one_span_each_in_start_order:
  assumes "buffer_ok st0" and "start_spans calls st0 = Inr st"
  shows "\<exists>d r sc ds. buildOTLPPayload clk st = Inr d
     \<and> field ''resourceSpans'' d = Some (DList [r])
     \<and> field ''resource'' r = Some (DMap [(''attributes'', DList [
            DMap [(''key'', DVal (GString ''service.name'')),
                  (''value'', DMap [(''stringValue'', DVal (GString ''agentbill-go-sdk''))])],
            DMap [(''key'', DVal (GString ''service.version'')),
                  (''value'', DMap [(''stringValue'', DVal (GString ''1.0.0''))])]])])
     \<and> field ''scopeSpans'' r = Some (DList [sc])
     \<and> field ''scope'' sc = Some (DMap [(''name'', DVal (GString ''agentbill'')),
                                          (''version'', DVal (GString ''1.0.0''))])
     \<and> field ''spans'' sc = Some (DList ds)
     \<and> length ds = length (spans (tracer st))
     \<and> (\<forall>i<length ds. ds ! i = spanToOTLP (clk i) st (buffered st ! i))
     \<and> length ds = length (spans (tracer st0)) + length calls
     \<and> (\<forall>j<length calls. field ''name'' (ds ! (length (spans (tracer st0)) + j))
                             = Some (DVal (GString (span_name (calls ! j)))))"
proof -
  have w: "buffer_ok st" using assms by (rule start_spans_buffer_ok)
  let ?ds = "map (\<lambda>j. spanToOTLP (clk j) st (buffered st ! j)) [0..<length (spans (tracer st))]"
  let ?sc = "DMap [(''scope'', DMap [(''name'', DVal (GString ''agentbill'')),
                                     (''version'', DVal (GString ''1.0.0''))]),
                   (''spans'', DList ?ds)]"
  let ?r = "DMap [(''resource'', DMap [(''attributes'', DList [
                     DMap [(''key'', DVal (GString ''service.name'')),
                           (''value'', DMap [(''stringValue'', DVal (GString ''agentbill-go-sdk''))])],
                     DMap [(''key'', DVal (GString ''service.version'')),
                           (''value'', DMap [(''stringValue'', DVal (GString ''1.0.0''))])]])]),
                  (''scopeSpans'', DList [?sc])]"
  let ?d = "DMap [(''resourceSpans'', DList [?r])]"
  have 1: "buildOTLPPayload clk st = Inr ?d" by (rule buildOTLPPayload_ok [OF w])
  have 2: "field ''resourceSpans'' ?d = Some (DList [?r])" by (simp add: field_def)
  have 3: "field ''resource'' ?r = Some (DMap [(''attributes'', DList [
            DMap [(''key'', DVal (GString ''service.name'')),
                  (''value'', DMap [(''stringValue'', DVal (GString ''agentbill-go-sdk''))])],
            DMap [(''key'', DVal (GString ''service.version'')),
                  (''value'', DMap [(''stringValue'', DVal (GString ''1.0.0''))])]])])"
    by (simp add: field_def)
  have 4: "field ''scopeSpans'' ?r = Some (DList [?sc])" by (simp add: field_def)
  have 5: "field ''scope'' ?sc = Some (DMap [(''name'', DVal (GString ''agentbill'')),
                                          (''version'', DVal (GString ''1.0.0''))])"
    by (simp add: field_def)
  have 6: "field ''spans'' ?sc = Some (DList ?ds)" by (simp add: field_def)
  have 7: "length ?ds = length (spans (tracer st))" by simp
  have 8: "\<forall>i<length ?ds. ?ds ! i = spanToOTLP (clk i) st (buffered st ! i)" by simp
  from start_spans_Inr [OF assms(2)]
  have 9: "length ?ds = length (spans (tracer st0)) + length calls" by auto
  have 10: "\<forall>j<length calls. field ''name'' (?ds ! (length (spans (tracer st0)) + j))
                             = Some (DVal (GString (span_name (calls ! j))))"
    using 9 start_spans_names [OF assms] by (simp add: name_field)
  from 1 2 3 4 5 6 7 8 9 10 show ?thesis by blast
qed

lemma ex_two_start: "start_spans [ex_call, ex_call2] ex_init = Inr ex_two"
  by (simp add: ex_two_def ex_call_def ex_call2_def StartSpan_MapRef)

lemma buffer_ok_ex_init: "buffer_ok ex_init"
  by (simp add: buffer_ok_def ex_init_def Init_def NewTracer_def)

lemma encoded_spans_Inr:
  "field ''resourceSpans'' d = Some (DList [r]) \<Longrightarrow> field ''scopeSpans'' r = Some (DList [sc])
   \<Longrightarrow> field ''spans'' sc = Some (DList ds) \<Longrightarrow> encoded_spans (Inr d) = ds"
  by (simp add: encoded_spans_def items_def)

theorem encoder_one_span_each_in_start_order_witness:
  "buffer_ok ex_init \<and> start_spans [ex_call, ex_call2] ex_init = Inr ex_two
   \<and> spans (tracer ex_init) = []
   \<and> length (encoded_spans (buildOTLPPayload (clock (ex_env 200)) ex_two)) = 2
   \<and> field ''name'' (encoded_spans (buildOTLPPayload (clock (ex_env 200)) ex_two) ! 0)
       = Some (DVal (GString ''openai.chat.completion''))
   \<and> field ''name'' (encoded_spans (buildOTLPPayload (clock (ex_env 200)) ex_two) ! 1)
       = Some (DVal (GString ''openai.embeddings''))"
proof -
  let ?clk = "clock (ex_env 200)"
  have e: "spans (tracer ex_init) = []" by (simp add: ex_init_def Init_def NewTracer_def)
  from encoder_one_span_each_in_start_order [OF buffer_ok_ex_init ex_two_start, of ?clk]
  obtain d r sc ds where p: "buildOTLPPayload ?clk ex_two = Inr d"
    and f: "field ''resourceSpans'' d = Some (DList [r])" "field ''scopeSpans'' r = Some (DList [sc])"
           "field ''spans'' sc = Some (DList ds)"
    and l: "length ds = length (spans (tracer ex_init)) + length [ex_call, ex_call2]"
    and n: "\<forall>j<length [ex_call, ex_call2].
              field ''name'' (ds ! (length (spans (tracer ex_init)) + j))
                = Some (DVal (GString (span_name ([ex_call, ex_call2] ! j))))"
    by blast
  have s: "encoded_spans (buildOTLPPayload ?clk ex_two) = ds"
    unfolding p using f by (rule encoded_spans_Inr)
  from n [rule_format, of 0] n [rule_format, of 1]
  have "field ''name'' (ds ! 0) = Some (DVal (GString ''openai.chat.completion''))"
    and "field ''name'' (ds ! 1) = Some (DVal (GString ''openai.embeddings''))"
    by (simp_all add: e ex_call_def ex_call2_def)
  with s l e buffer_ok_ex_init ex_two_start show ?thesis by simp
qed









end
